theory Spec2Isabelle
  imports Main "HOL-Library.Word"
begin

section \<open>The token router's client: addresses, digests and account composition\<close>

text \<open>
  A shallow embedding of \<^verbatim>\<open>solana/ts/src/tokenRouter/index.ts\<close>: the class
  \<^verbatim>\<open>TokenRouterProgram\<close>, its address derivations, its network table and the
  instruction builders that read the ledger before they compose their accounts.
\<close>

subsection \<open>Bytes, keys and errors\<close>

type_synonym byte = "8 word"
type_synonym bytes = "byte list"
type_synonym u16 = "16 word"
type_synonym u64 = "64 word"

text \<open>
  A \<^verbatim>\<open>PublicKey\<close> is built from its base-58 text (\<^verbatim>\<open>new PublicKey("...")\<close>), and
  that text is what the model keeps; its 32 bytes are read with \<^verbatim>\<open>toBuffer\<close>, a
  function of the key library.
\<close>

datatype PublicKey = PublicKey (toBase58: string)

text \<open>
  Every \<^verbatim>\<open>throw new Error(msg)\<close> of the source is \<open>Error msg\<close> with the message of
  the source. A failed ledger read throws inside the client library; the model lets the
  ledger answer any error value and the caller passes it on as the source does.
\<close>

datatype error = Error string

subsection \<open>The ledger\<close>

text \<open>
  The ledger behind \<^verbatim>\<open>program.provider.connection\<close>: the three reads the file makes,
  each answering the decoded record or the error the client library throws.
\<close>

record PreparedOrderInfo =
  info_preparedBy :: PublicKey
  info_orderSender :: PublicKey
  info_refundToken :: PublicKey
  info_targetChain :: u16

record Cctp =
  domain :: nat

record MessageProtocol =
  cctp :: "Cctp option"

record RouterEndpointInfo =
  protocol :: MessageProtocol

record TokenAccount =
  tokenAccount_owner :: PublicKey

record Connection =
  preparedOrder_fetch :: "PublicKey \<Rightarrow> error + PreparedOrderInfo"
  routerEndpointInfo_fetch :: "PublicKey \<Rightarrow> error + RouterEndpointInfo"
  splToken_getAccount :: "PublicKey \<Rightarrow> error + TokenAccount"

subsection \<open>Arguments and collaborators\<close>

text \<open>
  \<^verbatim>\<open>PrepareMarketOrderArgs\<close>. The fields have the widths that the encoders of
  \<^verbatim>\<open>transferAuthorityAddress\<close> write and that the program's instruction declares: a
  u64 for each amount (\<^verbatim>\<open>bigint\<close>), a u16 for the chain (\<^verbatim>\<open>number\<close>), byte values
  for the redeemer (\<^verbatim>\<open>Array<number>\<close>, which \<^verbatim>\<open>Buffer.from\<close> copies byte by byte)
  and for the message (\<^verbatim>\<open>Buffer\<close>); \<^verbatim>\<open>minAmountOut: bigint | null\<close> is an option.
\<close>

record PrepareMarketOrderArgs =
  amountIn :: u64
  minAmountOut :: "u64 option"
  targetChain :: u16
  redeemer :: bytes
  redeemerMessage :: bytes

text \<open>The matching-engine client that \<^verbatim>\<open>matchingEngineProgram()\<close> constructs.\<close>

record MatchingEngineProgram =
  me_connection :: Connection
  me_programId :: string
  me_mint :: PublicKey

text \<open>The client that \<^verbatim>\<open>tokenMessengerMinterProgram()\<close> constructs.\<close>

record TokenMessengerMinterProgram =
  tmm_connection :: Connection
  tmm_programId :: string

text \<open>The client that \<^verbatim>\<open>messageTransmitterProgram()\<close> constructs.\<close>

record MessageTransmitterProgram =
  mt_connection :: Connection
  mt_programId :: string

text \<open>The client that \<^verbatim>\<open>upgradeManagerProgram()\<close> constructs.\<close>

record UpgradeManagerProgram =
  um_connection :: Connection
  um_programId :: string

text \<open>
  What \<^verbatim>\<open>depositForBurnWithCallerAccounts\<close> returns, with the fields that
  \<^verbatim>\<open>placeMarketOrderCctpIx\<close> takes from it.
\<close>

record DepositForBurnWithCallerAccounts =
  senderAuthority :: PublicKey
  messageTransmitterConfig :: PublicKey
  tokenMessenger :: PublicKey
  remoteTokenMessenger :: PublicKey
  tokenMinter :: PublicKey
  localToken :: PublicKey
  tokenMessengerMinterEventAuthority :: PublicKey
  messageTransmitterProgramId :: PublicKey
  tokenMessengerMinterProgramId :: PublicKey

text \<open>
  The functions the file imports and does not define: the key library
  (\<^verbatim>\<open>toBuffer\<close>, \<^verbatim>\<open>findProgramAddressSync\<close>, \<^verbatim>\<open>isOnCurve\<close>), the Keccak-256 digest
  of package \<^verbatim>\<open>sha3\<close>, \<^verbatim>\<open>isChainId\<close> of the bridge SDK, and the derivations of
  the sibling modules \<^verbatim>\<open>../common\<close>, \<^verbatim>\<open>../matchingEngine\<close> and \<^verbatim>\<open>../cctp\<close>. They are
  parameters: nothing is assumed about what they compute.
  \<^verbatim>\<open>findProgramAddressSync\<close> returns the address and its bump; it throws only for a
  seed longer than 32 bytes, and the seeds of this file are tags of at most 18 bytes,
  keys and 32-byte digests.
\<close>

record Externals =
  toBuffer :: "PublicKey \<Rightarrow> bytes"
  keccak256 :: "bytes \<Rightarrow> bytes"
  findProgramAddressSync :: "bytes list \<Rightarrow> PublicKey \<Rightarrow> PublicKey \<times> nat"
  isOnCurve :: "bytes \<Rightarrow> bool"
  isChainId :: "u16 \<Rightarrow> bool"
  matchingEngine_localnet :: string
  matchingEngine_testnet :: string
  routerEndpointAddress :: "MatchingEngineProgram \<Rightarrow> u16 \<Rightarrow> PublicKey"
  common_coreMessageAddress :: "PublicKey \<Rightarrow> PublicKey \<Rightarrow> PublicKey"
  common_cctpMessageAddress :: "PublicKey \<Rightarrow> PublicKey \<Rightarrow> PublicKey"
  depositForBurnWithCallerAccounts ::
    "TokenMessengerMinterProgram \<Rightarrow> PublicKey \<Rightarrow> nat \<Rightarrow> DepositForBurnWithCallerAccounts"

subsection \<open>Buffers\<close>

text \<open>\<^verbatim>\<open>Buffer.from("tag")\<close>: the bytes of an ASCII tag.\<close>

definition Buffer_from :: "string \<Rightarrow> bytes" where
  "Buffer_from s = map of_char s"

text \<open>
  \<^verbatim>\<open>bn.toBuffer("be", 8)\<close>: the eight bytes of the value, the most significant
  first; byte \<open>j\<close> counted from the right is the value shifted right by \<open>8 * j\<close> bits.
\<close>

definition toBuffer_be8 :: "u64 \<Rightarrow> bytes" where
  "toBuffer_be8 w = rev (map (\<lambda>j. ucast (drop_bit (8 * j) w)) [0..<8])"

text \<open>
  Modelled from the spec: \<^verbatim>\<open>uint64ToBN\<close> of \<^verbatim>\<open>../common\<close>, which the file
  imports; the spec has the amounts as u64 values, written as 8 bytes, so the
  conversion keeps the value.
\<close>

definition uint64ToBN :: "u64 \<Rightarrow> u64" where
  "uint64ToBN v = v"

text \<open>
  \<^verbatim>\<open>buf = Buffer.alloc(2); buf.writeUInt16BE(v)\<close>: the high byte, then the low byte.
\<close>

definition writeUInt16BE :: "u16 \<Rightarrow> bytes" where
  "writeUInt16BE v = [ucast (drop_bit 8 v), ucast v]"

text \<open>
  The hasher of package \<^verbatim>\<open>sha3\<close>: \<^verbatim>\<open>update\<close> absorbs a buffer after what was
  absorbed before, \<^verbatim>\<open>digest\<close> is the Keccak-256 of all of it. The state is the
  sequence of bytes absorbed so far.
\<close>

definition new_Keccak :: bytes where
  "new_Keccak = []"

definition hasher_update :: "bytes \<Rightarrow> bytes \<Rightarrow> bytes" where
  "hasher_update h buf = h @ buf"

definition hasher_digest :: "Externals \<Rightarrow> bytes \<Rightarrow> bytes" where
  "hasher_digest ext h = keccak256 ext h"

subsection \<open>The program object\<close>

text \<open>
  \<^verbatim>\<open>_programId\<close> is typed as one of the two known ids, but it is a string at run
  time and the \<^verbatim>\<open>switch\<close> statements have a \<^verbatim>\<open>default\<close> branch for any other.
\<close>

record TokenRouterProgram =
  priv_programId :: string
  priv_mint :: PublicKey
  connection :: Connection

definition localnet :: string where
  "localnet = ''TokenRouter11111111111111111111111111111111''"

definition testnet :: string where
  "testnet = ''tD8RmtdcV7bzBeuFgyrFc8wvayj988ChccEzRQzo6md''"

definition PROGRAM_IDS :: "string list" where
  "PROGRAM_IDS = [''TokenRouter11111111111111111111111111111111'',
                  ''tD8RmtdcV7bzBeuFgyrFc8wvayj988ChccEzRQzo6md'']"

definition ID :: "TokenRouterProgram \<Rightarrow> PublicKey" where
  "ID P = PublicKey (priv_programId P)"

definition mint :: "TokenRouterProgram \<Rightarrow> PublicKey" where
  "mint P = priv_mint P"

subsection \<open>Derived addresses\<close>

definition preparedCustodyTokenAddress ::
  "Externals \<Rightarrow> TokenRouterProgram \<Rightarrow> PublicKey \<Rightarrow> PublicKey" where
  "preparedCustodyTokenAddress ext P preparedAccount =
     fst (findProgramAddressSync ext
            [Buffer_from ''prepared-custody'', toBuffer ext preparedAccount] (ID P))"

definition transferAuthorityAddress ::
  "Externals \<Rightarrow> TokenRouterProgram \<Rightarrow> PublicKey \<Rightarrow> PrepareMarketOrderArgs \<Rightarrow> PublicKey" where
  "transferAuthorityAddress ext P preparedOrder args =
     (let hasher = new_Keccak;
          hasher = hasher_update hasher (toBuffer_be8 (uint64ToBN (amountIn args)));
          hasher = (case minAmountOut args of
                      Some m \<Rightarrow> hasher_update hasher (toBuffer_be8 (uint64ToBN m))
                    | None \<Rightarrow> hasher);
          hasher = hasher_update hasher (writeUInt16BE (targetChain args));
          hasher = hasher_update hasher (redeemer args);
          hasher = hasher_update hasher (redeemerMessage args)
      in fst (findProgramAddressSync ext
                [Buffer_from ''transfer-authority'', toBuffer ext preparedOrder,
                 hasher_digest ext hasher]
                (ID P)))"

subsection \<open>The digest input as the specification words it\<close>

text \<open>
  A value as \<open>n\<close> bytes, big-endian: byte \<open>i\<close> from the left is the digit of weight
  \<open>256 ^ (n - 1 - i)\<close>.
\<close>

definition big_endian :: "nat \<Rightarrow> nat \<Rightarrow> bytes" where
  "big_endian n v = map (\<lambda>i. of_nat (v div 256 ^ (n - 1 - i) mod 256)) [0..<n]"

text \<open>The value that a sequence of bytes spells when read big-endian.\<close>

definition be_value :: "bytes \<Rightarrow> nat" where
  "be_value bs = foldl (\<lambda>a b. a * 256 + unat b) 0 bs"

definition spec_digest_input :: "PrepareMarketOrderArgs \<Rightarrow> bytes" where
  "spec_digest_input args =
     big_endian 8 (unat (amountIn args))
     @ (case minAmountOut args of None \<Rightarrow> [] | Some m \<Rightarrow> big_endian 8 (unat m))
     @ big_endian 2 (unat (targetChain args))
     @ redeemer args
     @ redeemerMessage args"

subsection \<open>Constants of the libraries\<close>

definition TOKEN_PROGRAM_ID :: PublicKey where
  "TOKEN_PROGRAM_ID = PublicKey ''TokenkegQfeZyiNwAJbNbGKPFXCWuBvf9Ss623VQ5DA''"

definition ASSOCIATED_TOKEN_PROGRAM_ID :: PublicKey where
  "ASSOCIATED_TOKEN_PROGRAM_ID = PublicKey ''ATokenGPvbdGVxr1b2hvZbsiqW5xWH25efTNsLJA8knL''"

definition SystemProgram_programId :: PublicKey where
  "SystemProgram_programId = PublicKey ''11111111111111111111111111111111''"

definition SYSVAR_RENT_PUBKEY :: PublicKey where
  "SYSVAR_RENT_PUBKEY = PublicKey ''SysvarRent111111111111111111111111111111111''"

definition SYSVAR_CLOCK_PUBKEY :: PublicKey where
  "SYSVAR_CLOCK_PUBKEY = PublicKey ''SysvarC1ock11111111111111111111111111111111''"

text \<open>
  \<^verbatim>\<open>getAssociatedTokenAddressSync(mint, owner, allowOwnerOffCurve)\<close> of the token
  library, with its default token program and associated-token program: the standard
  derivation. It refuses an owner that is off the curve unless the flag allows it.
\<close>

definition getAssociatedTokenAddressSync ::
  "Externals \<Rightarrow> PublicKey \<Rightarrow> PublicKey \<Rightarrow> bool \<Rightarrow> error + PublicKey" where
  "getAssociatedTokenAddressSync ext mnt ownr allowOwnerOffCurve =
     (if \<not> allowOwnerOffCurve \<and> \<not> isOnCurve ext (toBuffer ext ownr)
      then Inl (Error ''TokenOwnerOffCurveError'')
      else Inr (fst (findProgramAddressSync ext
                       [toBuffer ext ownr, toBuffer ext TOKEN_PROGRAM_ID, toBuffer ext mnt]
                       ASSOCIATED_TOKEN_PROGRAM_ID)))"

text \<open>
  The associated-token-account address as the standard derivation defines it: the
  program-derived address of the associated-token program for the seeds owner, token
  program, mint.
\<close>

definition standard_associated_token_address ::
  "Externals \<Rightarrow> PublicKey \<Rightarrow> PublicKey \<Rightarrow> PublicKey" where
  "standard_associated_token_address ext mnt ownr =
     fst (findProgramAddressSync ext
            [toBuffer ext ownr, toBuffer ext TOKEN_PROGRAM_ID, toBuffer ext mnt]
            ASSOCIATED_TOKEN_PROGRAM_ID)"

subsection \<open>Custodian and mint recipient\<close>

text \<open>
  Modelled from the spec: \<^verbatim>\<open>Custodian.address\<close> of \<^verbatim>\<open>./state\<close>, which the file
  imports; the spec derives the custodian from the program id with the seed
  \<^verbatim>\<open>"custodian"\<close>.
\<close>

definition Custodian_address :: "Externals \<Rightarrow> PublicKey \<Rightarrow> PublicKey" where
  "Custodian_address ext programId =
     fst (findProgramAddressSync ext [Buffer_from ''custodian''] programId)"

definition custodianAddress :: "Externals \<Rightarrow> TokenRouterProgram \<Rightarrow> PublicKey" where
  "custodianAddress ext P = Custodian_address ext (ID P)"

definition cctpMintRecipientAddress ::
  "Externals \<Rightarrow> TokenRouterProgram \<Rightarrow> error + PublicKey" where
  "cctpMintRecipientAddress ext P =
     getAssociatedTokenAddressSync ext (mint P) (custodianAddress ext P) True"

definition coreMessageAddress ::
  "Externals \<Rightarrow> TokenRouterProgram \<Rightarrow> PublicKey \<Rightarrow> PublicKey" where
  "coreMessageAddress ext P preparedOrder = common_coreMessageAddress ext (ID P) preparedOrder"

definition cctpMessageAddress ::
  "Externals \<Rightarrow> TokenRouterProgram \<Rightarrow> PublicKey \<Rightarrow> PublicKey" where
  "cctpMessageAddress ext P preparedOrder = common_cctpMessageAddress ext (ID P) preparedOrder"

subsection \<open>The network table\<close>

text \<open>
  Each \<^verbatim>\<open>switch (this._programId)\<close> tries \<^verbatim>\<open>testnet()\<close>, then \<^verbatim>\<open>localnet()\<close>, and
  throws in its \<^verbatim>\<open>default\<close> branch.
\<close>

definition upgradeManagerProgram :: "TokenRouterProgram \<Rightarrow> error + UpgradeManagerProgram" where
  "upgradeManagerProgram P =
     (if priv_programId P = testnet
      then Inr \<lparr>um_connection = connection P,
                um_programId = ''ucdP9ktgrXgEUnn6roqD2SfdGMR2JSiWHUKv23oXwxt''\<rparr>
      else if priv_programId P = localnet
      then Inr \<lparr>um_connection = connection P,
                um_programId = ''UpgradeManager11111111111111111111111111111''\<rparr>
      else Inl (Error ''unsupported network''))"

definition tokenMessengerMinterProgram :: "TokenRouterProgram \<Rightarrow> TokenMessengerMinterProgram" where
  "tokenMessengerMinterProgram P =
     \<lparr>tmm_connection = connection P,
      tmm_programId = ''CCTPiPYPc6AsJuwueEnWgSgucamXDZwBd53dQ11YiKX3''\<rparr>"

definition messageTransmitterProgram :: "TokenRouterProgram \<Rightarrow> MessageTransmitterProgram" where
  "messageTransmitterProgram P =
     \<lparr>mt_connection = connection P,
      mt_programId = ''CCTPmbSD7gX1bxKPAmg77w8oFzNFpaQiQUWD43TKaecd''\<rparr>"

definition matchingEngineProgram ::
  "Externals \<Rightarrow> TokenRouterProgram \<Rightarrow> error + MatchingEngineProgram" where
  "matchingEngineProgram ext P =
     (if priv_programId P = testnet
      then Inr \<lparr>me_connection = connection P,
                me_programId = matchingEngine_testnet ext,
                me_mint = mint P\<rparr>
      else if priv_programId P = localnet
      then Inr \<lparr>me_connection = connection P,
                me_programId = matchingEngine_localnet ext,
                me_mint = mint P\<rparr>
      else Inl (Error ''unsupported network''))"

definition coreBridgeProgramId :: "TokenRouterProgram \<Rightarrow> error + PublicKey" where
  "coreBridgeProgramId P =
     (if priv_programId P = testnet
      then Inr (PublicKey ''3u8hJUVTA4jH1wYAyUur7FFZVQ8H635K3tSHHF4ssjQ5'')
      else if priv_programId P = localnet
      then Inr (PublicKey ''worm2ZoG2kUd4vFXhvjh93UUH596ayRfgQ2MgjNMTth'')
      else Inl (Error ''unsupported network''))"

record PublishMessageAccounts =
  coreBridgeConfig :: PublicKey
  coreEmitterSequence :: PublicKey
  coreFeeCollector :: PublicKey
  coreBridgeProgram :: PublicKey

definition publishMessageAccounts ::
  "Externals \<Rightarrow> TokenRouterProgram \<Rightarrow> PublicKey \<Rightarrow> error + PublishMessageAccounts" where
  "publishMessageAccounts ext P emitter =
     (case coreBridgeProgramId P of
        Inl e \<Rightarrow> Inl e
      | Inr bridge \<Rightarrow>
          Inr \<lparr>coreBridgeConfig =
                 fst (findProgramAddressSync ext [Buffer_from ''Bridge''] bridge),
               coreEmitterSequence =
                 fst (findProgramAddressSync ext
                        [Buffer_from ''Sequence'', toBuffer ext emitter] bridge),
               coreFeeCollector =
                 fst (findProgramAddressSync ext [Buffer_from ''fee_collector''] bridge),
               coreBridgeProgram = bridge\<rparr>)"

subsection \<open>Operations that read the ledger\<close>

text \<open>
  An \<^verbatim>\<open>async\<close> method either throws or returns, and on its way it calls the ledger
  and the collaborators. The model returns the outcome together with the calls made up
  to it, in order: the three ledger reads, the router-endpoint derivation of the
  matching engine and the composition of the burn accounts.
\<close>

datatype event =
    FetchPreparedOrder PublicKey
  | FetchRouterEndpointInfo PublicKey
  | GetAccount PublicKey
  | RouterEndpointAddress u16
  | DepositForBurnWithCallerAccounts PublicKey nat

type_synonym 'a traced = "(error + 'a) \<times> event list"

definition returns :: "'a \<Rightarrow> 'a traced" where
  "returns x = (Inr x, [])"

definition throws :: "error \<Rightarrow> 'a traced" where
  "throws e = (Inl e, [])"

text \<open>A call that cannot read the ledger: its outcome, and no event.\<close>

definition pure_call :: "error + 'a \<Rightarrow> 'a traced" where
  "pure_call r = (r, [])"

text \<open>Sequencing: a throw ends the method with the events so far.\<close>

definition and_then :: "'a traced \<Rightarrow> ('a \<Rightarrow> 'b traced) \<Rightarrow> 'b traced" where
  "and_then m f =
     (case m of
        (Inl e, t) \<Rightarrow> (Inl e, t)
      | (Inr x, t) \<Rightarrow> (case f x of (r, t') \<Rightarrow> (r, t @ t')))"

text \<open>\<^verbatim>\<open>promise.catch((_) => { throw new Error(msg) })\<close>.\<close>

definition catch_throw :: "'a traced \<Rightarrow> error \<Rightarrow> 'a traced" where
  "catch_throw m e' = (case m of (Inl e, t) \<Rightarrow> (Inl e', t) | (Inr x, t) \<Rightarrow> (Inr x, t))"

text \<open>\<^verbatim>\<open>a ?? b\<close> on a value that is already at hand.\<close>

fun or_default :: "'a option \<Rightarrow> 'a \<Rightarrow> 'a" where
  "or_default (Some x) d = x"
| "or_default None d = d"

definition fetchPreparedOrder :: "TokenRouterProgram \<Rightarrow> PublicKey \<Rightarrow> PreparedOrderInfo traced" where
  "fetchPreparedOrder P addr =
     (preparedOrder_fetch (connection P) addr, [FetchPreparedOrder addr])"

definition fetchRouterEndpointInfo ::
  "MatchingEngineProgram \<Rightarrow> PublicKey \<Rightarrow> RouterEndpointInfo traced" where
  "fetchRouterEndpointInfo me addr =
     (routerEndpointInfo_fetch (me_connection me) addr, [FetchRouterEndpointInfo addr])"

definition getAccount :: "Connection \<Rightarrow> PublicKey \<Rightarrow> TokenAccount traced" where
  "getAccount conn addr = (splToken_getAccount conn addr, [GetAccount addr])"

subsection \<open>Instructions\<close>

text \<open>
  The object given to \<^verbatim>\<open>.accounts({...})\<close>: role names in the order written, each
  with a key, \<^verbatim>\<open>null\<close>, or a nested object.
\<close>

datatype AccountValue =
    Key PublicKey
  | NullAccount
  | Composite "(string \<times> AccountValue) list"

datatype MethodArgs =
    NoArgs
  | PrepareMarketOrder PrepareMarketOrderArgs

datatype TransactionInstruction =
    ApproveInstruction (ix_account: PublicKey) (ix_delegate: PublicKey)
                       (ix_owner: PublicKey) (ix_amount: u64)
  | MethodInstruction (ix_method: string) (ix_args: MethodArgs)
                      (ix_accounts: "(string \<times> AccountValue) list")


definition checkedCustodianComposite ::
  "Externals \<Rightarrow> TokenRouterProgram \<Rightarrow> PublicKey option \<Rightarrow> AccountValue" where
  "checkedCustodianComposite ext P addr =
     Composite [(''custodian'', Key (or_default addr (custodianAddress ext P)))]"


subsection \<open>Approving and preparing a market order\<close>

text \<open>
  The \<^verbatim>\<open>accounts\<close> objects of the methods. A field written \<^verbatim>\<open>name?: PublicKey\<close> is
  an option, \<open>None\<close> for \<^verbatim>\<open>undefined\<close>. A field written
  \<^verbatim>\<open>name?: PublicKey | null\<close> has three states: \<open>None\<close> for \<^verbatim>\<open>undefined\<close>,
  \<open>Some None\<close> for \<^verbatim>\<open>null\<close>, \<open>Some (Some k)\<close> for a key.
\<close>

record ApproveTransferAuthorityAccounts =
  ap_preparedOrder :: PublicKey
  ap_senderToken :: PublicKey
  ap_senderTokenAuthority :: "PublicKey option"

definition approveTransferAuthorityIx ::
  "Externals \<Rightarrow> TokenRouterProgram \<Rightarrow> ApproveTransferAuthorityAccounts \<Rightarrow>
   PrepareMarketOrderArgs \<Rightarrow> (PublicKey \<times> TransactionInstruction) traced" where
  "approveTransferAuthorityIx ext P accounts args =
     (let preparedOrder = ap_preparedOrder accounts;
          senderToken = ap_senderToken accounts;
          amount = amountIn args
      in and_then
           (case ap_senderTokenAuthority accounts of
              Some a \<Rightarrow> returns a
            | None \<Rightarrow>
                and_then (getAccount (connection P) senderToken)
                  (\<lambda>tokenAccount. returns (tokenAccount_owner tokenAccount)))
           (\<lambda>senderTokenAuthority.
              let transferAuthority = transferAuthorityAddress ext P preparedOrder args
              in returns
                   (transferAuthority,
                    ApproveInstruction senderToken transferAuthority
                      senderTokenAuthority amount)))"



subsection \<open>Closing a prepared order, consuming a prepared fill\<close>

record ClosePreparedOrderAccounts =
  cl_preparedOrder :: PublicKey
  cl_preparedBy :: "PublicKey option"
  cl_orderSender :: "PublicKey option"
  cl_refundToken :: "PublicKey option"

definition closePreparedOrderIx ::
  "Externals \<Rightarrow> TokenRouterProgram \<Rightarrow> ClosePreparedOrderAccounts \<Rightarrow>
   TransactionInstruction traced" where
  "closePreparedOrderIx ext P accounts =
     (let preparedOrder = cl_preparedOrder accounts
      in and_then
           (case (cl_preparedBy accounts, cl_orderSender accounts, cl_refundToken accounts) of
              (Some preparedBy, Some orderSender, Some refundToken) \<Rightarrow>
                returns (preparedBy, orderSender, refundToken)
            | (preparedBy, orderSender, refundToken) \<Rightarrow>
                and_then (fetchPreparedOrder P preparedOrder)
                  (\<lambda>info. returns
                     (or_default preparedBy (info_preparedBy info),
                      or_default orderSender (info_orderSender info),
                      or_default refundToken (info_refundToken info))))
           (\<lambda>(preparedBy, orderSender, refundToken).
              returns
                (MethodInstruction ''closePreparedOrder'' NoArgs
                   [(''preparedBy'', Key preparedBy),
                    (''custodian'', checkedCustodianComposite ext P None),
                    (''orderSender'', Key orderSender),
                    (''preparedOrder'', Key preparedOrder),
                    (''refundToken'', Key refundToken),
                    (''preparedCustodyToken'', Key (preparedCustodyTokenAddress ext P preparedOrder)),
                    (''tokenProgram'', Key TOKEN_PROGRAM_ID)])))"

record ConsumePreparedFillAccounts =
  cf_preparedFill :: PublicKey
  cf_redeemer :: PublicKey
  cf_dstToken :: PublicKey
  cf_beneficiary :: PublicKey

definition consumePreparedFillIx ::
  "Externals \<Rightarrow> TokenRouterProgram \<Rightarrow> ConsumePreparedFillAccounts \<Rightarrow>
   TransactionInstruction traced" where
  "consumePreparedFillIx ext P accounts =
     (let preparedFill = cf_preparedFill accounts;
          redeemr = cf_redeemer accounts;
          dstToken = cf_dstToken accounts;
          beneficiary = cf_beneficiary accounts
      in returns
           (MethodInstruction ''consumePreparedFill'' NoArgs
              [(''redeemer'', Key redeemr),
               (''beneficiary'', Key beneficiary),
               (''preparedFill'', Key preparedFill),
               (''dstToken'', Key dstToken),
               (''preparedCustodyToken'', Key (preparedCustodyTokenAddress ext P preparedFill)),
               (''tokenProgram'', Key TOKEN_PROGRAM_ID)]))"

subsection \<open>Placing a market order through CCTP\<close>

record PlaceMarketOrderCctpAccounts =
  pl_payer :: PublicKey
  pl_preparedOrder :: PublicKey
  pl_preparedBy :: "PublicKey option"
  pl_routerEndpoint :: "PublicKey option"

record PlaceMarketOrderCctpArgs =
  pl_targetChain :: "u16 option"
  pl_destinationDomain :: "nat option"

text \<open>
  The first step: \<^verbatim>\<open>preparedBy\<close> and \<^verbatim>\<open>targetChain\<close>, from the caller or from the
  prepared order on the ledger. The stored chain is checked whenever the order is read,
  also when the caller gave a chain.
\<close>

definition resolvePreparedByAndTargetChain ::
  "Externals \<Rightarrow> TokenRouterProgram \<Rightarrow> PlaceMarketOrderCctpAccounts \<Rightarrow>
   PlaceMarketOrderCctpArgs \<Rightarrow> (PublicKey \<times> u16) traced" where
  "resolvePreparedByAndTargetChain ext P accounts args =
     (case (pl_preparedBy accounts, pl_targetChain args) of
        (Some preparedBy, Some chain) \<Rightarrow> returns (preparedBy, chain)
      | (preparedBy, chain) \<Rightarrow>
          and_then
            (catch_throw (fetchPreparedOrder P (pl_preparedOrder accounts))
               (Error ''Cannot find prepared order''))
            (\<lambda>info.
               if \<not> isChainId ext (info_targetChain info)
               then throws (Error ''Invalid chain found in prepared order'')
               else returns (or_default preparedBy (info_preparedBy info),
                             or_default chain (info_targetChain info))))"

text \<open>
  The step that settles \<^verbatim>\<open>destinationDomain\<close>: the caller's value, or the CCTP domain
  of the router endpoint read from the ledger.
\<close>

definition resolveDestinationDomain ::
  "MatchingEngineProgram \<Rightarrow> PublicKey \<Rightarrow> nat option \<Rightarrow> nat traced" where
  "resolveDestinationDomain matchingEngine routerEndpoint destinationDomain =
     (case destinationDomain of
        Some d \<Rightarrow> returns d
      | None \<Rightarrow>
          and_then (fetchRouterEndpointInfo matchingEngine routerEndpoint)
            (\<lambda>info.
               case cctp (protocol info) of
                 None \<Rightarrow> throws (Error ''invalid router endpoint'')
               | Some c \<Rightarrow> returns (domain c)))"

definition placeMarketOrderCctpIx ::
  "Externals \<Rightarrow> TokenRouterProgram \<Rightarrow> PlaceMarketOrderCctpAccounts \<Rightarrow>
   PlaceMarketOrderCctpArgs \<Rightarrow> TransactionInstruction traced" where
  "placeMarketOrderCctpIx ext P accounts args =
     (let payer = pl_payer accounts;
          preparedOrder = pl_preparedOrder accounts
      in and_then (resolvePreparedByAndTargetChain ext P accounts args)
           (\<lambda>(preparedBy, chain).
      and_then (pure_call (matchingEngineProgram ext P))
           (\<lambda>matchingEngine.
      and_then
           (case pl_routerEndpoint accounts of
              Some given \<Rightarrow> returns given
            | None \<Rightarrow> (Inr (routerEndpointAddress ext matchingEngine chain),
                       [RouterEndpointAddress chain]))
           (\<lambda>routerEndpoint.
      let coreMessage = coreMessageAddress ext P preparedOrder;
          cctpMessage = cctpMessageAddress ext P preparedOrder
      in and_then
           (resolveDestinationDomain matchingEngine routerEndpoint (pl_destinationDomain args))
           (\<lambda>destinationDomain.
      and_then
           (Inr (depositForBurnWithCallerAccounts ext (tokenMessengerMinterProgram P)
                   (mint P) destinationDomain),
            [DepositForBurnWithCallerAccounts (mint P) destinationDomain])
           (\<lambda>burn.
      let custodian = custodianAddress ext P
      in and_then (pure_call (publishMessageAccounts ext P custodian))
           (\<lambda>pub.
      returns
        (MethodInstruction ''placeMarketOrderCctp'' NoArgs
           [(''payer'', Key payer),
            (''preparedBy'', Key preparedBy),
            (''custodian'', checkedCustodianComposite ext P None),
            (''preparedOrder'', Key preparedOrder),
            (''mint'', Key (mint P)),
            (''preparedCustodyToken'', Key (preparedCustodyTokenAddress ext P preparedOrder)),
            (''routerEndpoint'', Key routerEndpoint),
            (''coreBridgeConfig'', Key (coreBridgeConfig pub)),
            (''coreMessage'', Key coreMessage),
            (''cctpMessage'', Key cctpMessage),
            (''coreEmitterSequence'', Key (coreEmitterSequence pub)),
            (''coreFeeCollector'', Key (coreFeeCollector pub)),
            (''tokenMessengerMinterSenderAuthority'', Key (senderAuthority burn)),
            (''messageTransmitterConfig'', Key (messageTransmitterConfig burn)),
            (''tokenMessenger'', Key (tokenMessenger burn)),
            (''remoteTokenMessenger'', Key (remoteTokenMessenger burn)),
            (''tokenMinter'', Key (tokenMinter burn)),
            (''localToken'', Key (localToken burn)),
            (''tokenMessengerMinterEventAuthority'', Key (tokenMessengerMinterEventAuthority burn)),
            (''coreBridgeProgram'', Key (coreBridgeProgram pub)),
            (''tokenMessengerMinterProgram'', Key (tokenMessengerMinterProgramId burn)),
            (''messageTransmitterProgram'', Key (messageTransmitterProgramId burn)),
            (''tokenProgram'', Key TOKEN_PROGRAM_ID),
            (''systemProgram'', Key SystemProgram_programId),
            (''rent'', Key SYSVAR_RENT_PUBKEY),
            (''clock'', Key SYSVAR_CLOCK_PUBKEY)]))))))))"

subsection \<open>Notions used in the statements\<close>

text \<open>The function \<open>f\<close> does not send the two inputs \<open>x\<close> and \<open>y\<close> to one value.\<close>

definition collision_free :: "('a \<Rightarrow> 'b) \<Rightarrow> 'a \<Rightarrow> 'a \<Rightarrow> bool" where
  "collision_free f x y \<longleftrightarrow> (f x = f y \<longrightarrow> x = y)"

text \<open>
  The roles of \<^verbatim>\<open>placeMarketOrderCctp\<close> that come from the burn accounts, with the
  field of \<^verbatim>\<open>depositForBurnWithCallerAccounts\<close> each one holds.
\<close>

definition burn_roles :: "DepositForBurnWithCallerAccounts \<Rightarrow> (string \<times> AccountValue) list" where
  "burn_roles burn =
     [(''tokenMessengerMinterSenderAuthority'', Key (senderAuthority burn)),
      (''messageTransmitterConfig'', Key (messageTransmitterConfig burn)),
      (''tokenMessenger'', Key (tokenMessenger burn)),
      (''remoteTokenMessenger'', Key (remoteTokenMessenger burn)),
      (''tokenMinter'', Key (tokenMinter burn)),
      (''localToken'', Key (localToken burn)),
      (''tokenMessengerMinterEventAuthority'', Key (tokenMessengerMinterEventAuthority burn)),
      (''tokenMessengerMinterProgram'', Key (tokenMessengerMinterProgramId burn)),
      (''messageTransmitterProgram'', Key (messageTransmitterProgramId burn))]"

text \<open>The value an instruction's account object has for a role.\<close>

definition account_of :: "TransactionInstruction \<Rightarrow> string \<Rightarrow> AccountValue option" where
  "account_of ix role = map_of (ix_accounts ix) role"

subsection \<open>A small ledger and stand-ins for the collaborators\<close>

text \<open>
  Concrete values on which the operations are evaluated. The stand-in digest is the
  identity and the stand-in derivation keeps only the total length of the seeds: they
  are chosen to be computable, not to resemble Keccak or the real derivation.
\<close>

definition sample_connection :: Connection where
  "sample_connection =
     \<lparr>preparedOrder_fetch =
        (\<lambda>addr. if addr = PublicKey ''order1''
                then Inr \<lparr>info_preparedBy = PublicKey ''preparer'',
                          info_orderSender = PublicKey ''orderSender'',
                          info_refundToken = PublicKey ''refundToken'',
                          info_targetChain = 2\<rparr>
                else if addr = PublicKey ''order2''
                then Inr \<lparr>info_preparedBy = PublicKey ''preparer'',
                          info_orderSender = PublicKey ''orderSender'',
                          info_refundToken = PublicKey ''refundToken'',
                          info_targetChain = 65535\<rparr>
                else Inl (Error ''Account does not exist or has no data'')),
      routerEndpointInfo_fetch =
        (\<lambda>addr. if addr = PublicKey ''endpointCctp''
                then Inr \<lparr>protocol = \<lparr>cctp = Some \<lparr>domain = 0\<rparr>\<rparr>\<rparr>
                else if addr = PublicKey ''endpointLocal''
                then Inr \<lparr>protocol = \<lparr>cctp = None\<rparr>\<rparr>
                else Inl (Error ''Account does not exist or has no data'')),
      splToken_getAccount =
        (\<lambda>addr. if addr = PublicKey ''senderToken''
                then Inr \<lparr>tokenAccount_owner = PublicKey ''tokenOwner''\<rparr>
                else Inl (Error ''TokenAccountNotFoundError''))\<rparr>"

definition sample_ext :: Externals where
  "sample_ext =
     \<lparr>toBuffer = (\<lambda>k. map of_char (toBase58 k)),
      keccak256 = (\<lambda>bs. bs),
      findProgramAddressSync =
        (\<lambda>seeds programId. (PublicKey (replicate (length (concat seeds)) CHR ''1''), 255)),
      isOnCurve = (\<lambda>bs. False),
      isChainId = (\<lambda>c. c = 1 \<or> c = 2),
      matchingEngine_localnet = ''MatchingEngine11111111111111111111111111111'',
      matchingEngine_testnet = ''mPydpGUWxzERTNpyvTKdvS7v8kvw5sgwfiP8WQFrXVS'',
      routerEndpointAddress = (\<lambda>me chain. PublicKey ''endpointCctp''),
      common_coreMessageAddress = (\<lambda>programId order. PublicKey ''coreMessage''),
      common_cctpMessageAddress = (\<lambda>programId order. PublicKey ''cctpMessage''),
      depositForBurnWithCallerAccounts =
        (\<lambda>tmm mnt dom.
           \<lparr>senderAuthority = PublicKey ''senderAuthority'',
            messageTransmitterConfig = PublicKey ''messageTransmitterConfig'',
            tokenMessenger = PublicKey ''tokenMessenger'',
            remoteTokenMessenger = PublicKey (replicate dom CHR ''r''),
            tokenMinter = PublicKey ''tokenMinter'',
            localToken = mnt,
            tokenMessengerMinterEventAuthority = PublicKey ''eventAuthority'',
            messageTransmitterProgramId = PublicKey ''CCTPmbSD7gX1bxKPAmg77w8oFzNFpaQiQUWD43TKaecd'',
            tokenMessengerMinterProgramId = PublicKey (tmm_programId tmm)\<rparr>)\<rparr>"

definition sample_mint :: PublicKey where
  "sample_mint = PublicKey ''EPjFWdd5AufqSSqeM2qN1xzybapC8G4wEGGkZwyTDt1v''"

definition sample_localnet_program :: TokenRouterProgram where
  "sample_localnet_program =
     \<lparr>priv_programId = localnet, priv_mint = sample_mint, connection = sample_connection\<rparr>"

definition sample_testnet_program :: TokenRouterProgram where
  "sample_testnet_program =
     \<lparr>priv_programId = testnet, priv_mint = sample_mint, connection = sample_connection\<rparr>"

definition sample_unknown_program :: TokenRouterProgram where
  "sample_unknown_program =
     \<lparr>priv_programId = ''mainnet'', priv_mint = sample_mint, connection = sample_connection\<rparr>"

definition sample_args :: PrepareMarketOrderArgs where
  "sample_args =
     \<lparr>amountIn = 69, minAmountOut = Some 100, targetChain = 2,
      redeemer = replicate 32 1, redeemerMessage = [222, 173, 190, 239]\<rparr>"

definition sample_approve_accounts :: ApproveTransferAuthorityAccounts where
  "sample_approve_accounts =
     \<lparr>ap_preparedOrder = PublicKey ''order1'', ap_senderToken = PublicKey ''senderToken'',
      ap_senderTokenAuthority = None\<rparr>"


definition sample_close_accounts :: ClosePreparedOrderAccounts where
  "sample_close_accounts =
     \<lparr>cl_preparedOrder = PublicKey ''order1'', cl_preparedBy = None,
      cl_orderSender = Some (PublicKey ''givenSender''), cl_refundToken = None\<rparr>"

definition sample_consume_accounts :: ConsumePreparedFillAccounts where
  "sample_consume_accounts =
     \<lparr>cf_preparedFill = PublicKey ''fill1'', cf_redeemer = PublicKey ''redeemer'',
      cf_dstToken = PublicKey ''dstToken'', cf_beneficiary = PublicKey ''beneficiary''\<rparr>"

definition sample_place_accounts :: PlaceMarketOrderCctpAccounts where
  "sample_place_accounts =
     \<lparr>pl_payer = PublicKey ''payer'', pl_preparedOrder = PublicKey ''order1'',
      pl_preparedBy = None, pl_routerEndpoint = None\<rparr>"

definition sample_place_args :: PlaceMarketOrderCctpArgs where
  "sample_place_args = \<lparr>pl_targetChain = None, pl_destinationDomain = None\<rparr>"

section \<open>Properties\<close>

subsection \<open>The encoders write big-endian\<close>

lemma ucast_drop_bit_digit:
  "(ucast (drop_bit k (w :: 'a::len word)) :: byte) = of_nat (unat w div 2 ^ k mod 256)"
proof -
  have u: "unat (drop_bit k w) = unat w div 2 ^ k"
    unfolding unat_drop_bit_eq by (rule drop_bit_eq_div)
  have "(ucast (drop_bit k w) :: byte) = of_nat (unat (drop_bit k w))"
    by simp
  also have "\<dots> = of_nat (unat w div 2 ^ k)"
    by (simp only: u)
  also have "\<dots> = (of_nat (unat w div 2 ^ k mod 256) :: byte)"
    by (simp add: word_of_nat_eq_iff take_bit_eq_mod)
  finally show ?thesis .
qed

lemma toBuffer_be8_big_endian: "toBuffer_be8 w = big_endian 8 (unat w)"
  unfolding toBuffer_be8_def big_endian_def
  by (simp add: upt_rec ucast_drop_bit_digit power_mult [symmetric] del: upt_Suc) 

lemma writeUInt16BE_big_endian: "writeUInt16BE v = big_endian 2 (unat v)"
  unfolding writeUInt16BE_def big_endian_def
  using ucast_drop_bit_digit [of 8 v] ucast_drop_bit_digit [of 0 v]
  by (simp add: upt_rec)

lemma length_big_endian: "length (big_endian n v) = n"
  by (simp add: big_endian_def)

lemma big_endian_Suc:
  "big_endian (Suc n) v = big_endian n (v div 256) @ [of_nat (v mod 256)]"
proof -
  have "map (\<lambda>i. (of_nat (v div 256 ^ (n - i) mod 256) :: byte)) [0..<n]
        = map (\<lambda>i. of_nat (v div 256 div 256 ^ (n - 1 - i) mod 256)) [0..<n]"
  proof (rule map_cong [OF refl])
    fix i assume "i \<in> set [0..<n]"
    then have "n - i = Suc (n - 1 - i)" by auto
    then show "(of_nat (v div 256 ^ (n - i) mod 256) :: byte)
               = of_nat (v div 256 div 256 ^ (n - 1 - i) mod 256)"
      by (simp add: div_mult2_eq)
  qed
  then show ?thesis
    by (simp add: big_endian_def)
qed

lemma be_value_snoc: "be_value (bs @ [b]) = be_value bs * 256 + unat b"
  by (simp add: be_value_def)

lemma unat_byte_of_nat_mod: "unat (of_nat (v mod 256) :: byte) = v mod 256"
  by (simp add: unat_of_nat)

lemma be_value_big_endian: "be_value (big_endian n v) = v mod 256 ^ n"
proof (induction n arbitrary: v)
  case 0
  show ?case by (simp add: big_endian_def be_value_def)
next
  case (Suc n)
  have "be_value (big_endian (Suc n) v) = (v div 256) mod 256 ^ n * 256 + v mod 256"
    by (simp only: big_endian_Suc be_value_snoc Suc.IH unat_byte_of_nat_mod)
  also have "\<dots> = v mod 256 ^ Suc n"
    by (simp add: mod_mult2_eq)
  finally show ?case .
qed

subsection \<open>What the transfer authority is derived from\<close>

lemma hashed_bytes_eq_spec:
  "hasher_update
     (hasher_update
        (hasher_update
           (case minAmountOut args of
              Some m \<Rightarrow> hasher_update (hasher_update new_Keccak (toBuffer_be8 (uint64ToBN (amountIn args))))
                          (toBuffer_be8 (uint64ToBN m))
            | None \<Rightarrow> hasher_update new_Keccak (toBuffer_be8 (uint64ToBN (amountIn args))))
           (writeUInt16BE (targetChain args)))
        (redeemer args))
     (redeemerMessage args)
   = spec_digest_input args"
  by (simp add: hasher_update_def new_Keccak_def uint64ToBN_def spec_digest_input_def
        toBuffer_be8_big_endian writeUInt16BE_big_endian split: option.split)

lemma transferAuthorityAddress_unfold:
  "transferAuthorityAddress ext P preparedOrder args =
     fst (findProgramAddressSync ext
            [Buffer_from ''transfer-authority'', toBuffer ext preparedOrder,
             keccak256 ext (spec_digest_input args)]
            (ID P))"
  unfolding transferAuthorityAddress_def Let_def hasher_digest_def
  by (simp only: hashed_bytes_eq_spec)

lemma length_spec_digest_input:
  "length (spec_digest_input args) =
     (case minAmountOut args of None \<Rightarrow> 10 | Some m \<Rightarrow> 18)
     + length (redeemer args) + length (redeemerMessage args)"
  by (simp add: spec_digest_input_def length_big_endian split: option.split)

text \<open>
  C1. For every order address and every \<^verbatim>\<open>PrepareMarketOrderArgs\<close>,
  \<^verbatim>\<open>transferAuthorityAddress\<close> is the address derived for the program from the seeds
  \<^verbatim>\<open>"transfer-authority"\<close>, the bytes of the order address and the Keccak-256 digest of:
  \<^verbatim>\<open>amountIn\<close> as 8 bytes big-endian, then \<^verbatim>\<open>minAmountOut\<close> as 8 bytes big-endian
  when it is not null and nothing at all when it is null, then \<^verbatim>\<open>targetChain\<close> as 2
  bytes big-endian, then the redeemer's bytes, then the bytes of the message.
\<close>

theorem transferAuthorityAddress_seeds_and_digest:
  "transferAuthorityAddress ext P preparedOrder args =
     fst (findProgramAddressSync ext
            [Buffer_from ''transfer-authority'', toBuffer ext preparedOrder,
             keccak256 ext (spec_digest_input args)]
            (ID P))"
  by (rule transferAuthorityAddress_unfold)

text \<open>
  C2. Two argument values that differ only in that \<^verbatim>\<open>minAmountOut\<close> is present in
  one and null in the other are hashed from different byte sequences (the first is 8
  bytes longer), and so they get different transfer-authority addresses wherever the
  digest and the address derivation do not collide on this pair.
\<close>

theorem transferAuthorityAddress_minAmountOut_presence:
  assumes present: "minAmountOut a = Some v"
    and absent: "b = a\<lparr>minAmountOut := None\<rparr>"
    and digest: "collision_free (keccak256 ext) (spec_digest_input a) (spec_digest_input b)"
    and derive:
      "collision_free
         (\<lambda>D. fst (findProgramAddressSync ext
                     [Buffer_from ''transfer-authority'', toBuffer ext preparedOrder, D] (ID P)))
         (keccak256 ext (spec_digest_input a)) (keccak256 ext (spec_digest_input b))"
  shows "spec_digest_input a \<noteq> spec_digest_input b
         \<and> transferAuthorityAddress ext P preparedOrder a
           \<noteq> transferAuthorityAddress ext P preparedOrder b"
proof -
  have "length (spec_digest_input a) = length (spec_digest_input b) + 8"
    using present absent by (simp add: length_spec_digest_input)
  then have inputs: "spec_digest_input a \<noteq> spec_digest_input b"
    by auto
  with digest have "keccak256 ext (spec_digest_input a) \<noteq> keccak256 ext (spec_digest_input b)"
    by (auto simp: collision_free_def)
  with derive have
    "transferAuthorityAddress ext P preparedOrder a \<noteq> transferAuthorityAddress ext P preparedOrder b"
    by (auto simp: collision_free_def transferAuthorityAddress_unfold)
  with inputs show ?thesis by simp
qed

lemma sample_input_present:
  "spec_digest_input sample_args =
     [0,0,0,0,0,0,0,69, 0,0,0,0,0,0,0,100, 0,2] @ replicate 32 1 @ [222, 173, 190, 239]"
  by (simp add: spec_digest_input_def sample_args_def big_endian_def upt_rec)

lemma sample_input_absent:
  "spec_digest_input (sample_args\<lparr>minAmountOut := None\<rparr>) =
     [0,0,0,0,0,0,0,69, 0,2] @ replicate 32 1 @ [222, 173, 190, 239]"
  by (simp add: spec_digest_input_def sample_args_def big_endian_def upt_rec)

theorem transferAuthorityAddress_minAmountOut_presence_witness:
  "minAmountOut sample_args = Some 100
   \<and> collision_free (keccak256 sample_ext) (spec_digest_input sample_args)
        (spec_digest_input (sample_args\<lparr>minAmountOut := None\<rparr>))
   \<and> collision_free
         (\<lambda>D. fst (findProgramAddressSync sample_ext
                     [Buffer_from ''transfer-authority'', toBuffer sample_ext (PublicKey ''order1''), D]
                     (ID sample_localnet_program)))
         (keccak256 sample_ext (spec_digest_input sample_args))
         (keccak256 sample_ext (spec_digest_input (sample_args\<lparr>minAmountOut := None\<rparr>)))
   \<and> transferAuthorityAddress sample_ext sample_localnet_program (PublicKey ''order1'') sample_args
       \<noteq> transferAuthorityAddress sample_ext sample_localnet_program (PublicKey ''order1'')
            (sample_args\<lparr>minAmountOut := None\<rparr>)"
proof -
  have p: "minAmountOut sample_args = Some 100"
    by (simp add: sample_args_def)
  have d: "collision_free (keccak256 sample_ext) (spec_digest_input sample_args)
             (spec_digest_input (sample_args\<lparr>minAmountOut := None\<rparr>))"
    by (simp add: collision_free_def sample_ext_def)
  have g: "collision_free
         (\<lambda>D. fst (findProgramAddressSync sample_ext
                     [Buffer_from ''transfer-authority'', toBuffer sample_ext (PublicKey ''order1''), D]
                     (ID sample_localnet_program)))
         (keccak256 sample_ext (spec_digest_input sample_args))
         (keccak256 sample_ext (spec_digest_input (sample_args\<lparr>minAmountOut := None\<rparr>)))"
    unfolding sample_input_present sample_input_absent
    by (simp add: collision_free_def sample_ext_def Buffer_from_def)
  from transferAuthorityAddress_minAmountOut_presence [OF p refl d g] p d g show ?thesis by simp
qed


subsection \<open>Sequencing\<close>

lemma and_then_returns [simp]: "and_then (returns x) f = f x"
  by (simp add: and_then_def returns_def split: prod.split)

lemma and_then_Inr: "and_then (Inr x, t) f = (fst (f x), t @ snd (f x))"
  by (simp add: and_then_def split: prod.split)

lemma and_then_Inl [simp]: "and_then (Inl e, t) f = (Inl e, t)"
  by (simp add: and_then_def)


subsection \<open>The network table\<close>

lemma testnet_neq_localnet: "testnet \<noteq> localnet"
  by (simp add: testnet_def localnet_def)

lemma set_PROGRAM_IDS: "set PROGRAM_IDS = {localnet, testnet}"
  by (simp add: PROGRAM_IDS_def localnet_def testnet_def)

text \<open>
  C5. For a program id outside the known ids (localnet, testnet), the three resolutions
  that depend on the network (upgrade-manager program, matching-engine program,
  core-bridge program id) each fail with \<^verbatim>\<open>unsupported network\<close>; none falls back to
  a network. For a known id all three succeed, and what they resolve is fixed by the id:
  any program object with the same id resolves the same program ids.
\<close>

theorem network_resolution_fails_closed:
  "(priv_programId P \<notin> set PROGRAM_IDS \<longrightarrow>
      upgradeManagerProgram P = Inl (Error ''unsupported network'')
      \<and> matchingEngineProgram ext P = Inl (Error ''unsupported network'')
      \<and> coreBridgeProgramId P = Inl (Error ''unsupported network''))
   \<and> (priv_programId P \<in> set PROGRAM_IDS \<longrightarrow>
      (\<exists>um me bridge.
         upgradeManagerProgram P = Inr um \<and> matchingEngineProgram ext P = Inr me
         \<and> coreBridgeProgramId P = Inr bridge
         \<and> (\<forall>P'. priv_programId P' = priv_programId P \<longrightarrow>
               map_sum id um_programId (upgradeManagerProgram P') = Inr (um_programId um)
               \<and> map_sum id me_programId (matchingEngineProgram ext P') = Inr (me_programId me)
               \<and> coreBridgeProgramId P' = Inr bridge)))"
  unfolding set_PROGRAM_IDS
  by (simp add: upgradeManagerProgram_def matchingEngineProgram_def coreBridgeProgramId_def)

theorem network_resolution_fails_closed_witness:
  "priv_programId sample_unknown_program \<notin> set PROGRAM_IDS
   \<and> upgradeManagerProgram sample_unknown_program = Inl (Error ''unsupported network'')
   \<and> matchingEngineProgram sample_ext sample_unknown_program = Inl (Error ''unsupported network'')
   \<and> coreBridgeProgramId sample_unknown_program = Inl (Error ''unsupported network'')
   \<and> priv_programId sample_testnet_program \<in> set PROGRAM_IDS
   \<and> coreBridgeProgramId sample_testnet_program
       = Inr (PublicKey ''3u8hJUVTA4jH1wYAyUur7FFZVQ8H635K3tSHHF4ssjQ5'')
   \<and> coreBridgeProgramId (sample_testnet_program\<lparr>priv_mint := PublicKey ''other''\<rparr>)
       = coreBridgeProgramId sample_testnet_program"
proof -
  have u: "priv_programId sample_unknown_program \<notin> set PROGRAM_IDS"
    by (simp add: sample_unknown_program_def PROGRAM_IDS_def)
  have k: "priv_programId sample_testnet_program \<in> set PROGRAM_IDS"
    by (simp add: sample_testnet_program_def PROGRAM_IDS_def testnet_def)
  have b: "coreBridgeProgramId sample_testnet_program
       = Inr (PublicKey ''3u8hJUVTA4jH1wYAyUur7FFZVQ8H635K3tSHHF4ssjQ5'')"
    by (simp add: coreBridgeProgramId_def sample_testnet_program_def)
  have same: "priv_programId (sample_testnet_program\<lparr>priv_mint := PublicKey ''other''\<rparr>)
                = priv_programId sample_testnet_program"
    by simp
  from network_resolution_fails_closed [of sample_unknown_program sample_ext] u
  have 1: "upgradeManagerProgram sample_unknown_program = Inl (Error ''unsupported network'')
      \<and> matchingEngineProgram sample_ext sample_unknown_program = Inl (Error ''unsupported network'')
      \<and> coreBridgeProgramId sample_unknown_program = Inl (Error ''unsupported network'')"
    by blast
  from network_resolution_fails_closed [of sample_testnet_program sample_ext] k same
  have 2: "coreBridgeProgramId (sample_testnet_program\<lparr>priv_mint := PublicKey ''other''\<rparr>)
       = coreBridgeProgramId sample_testnet_program"
    by metis
  from u k b 1 2 show ?thesis by simp
qed

text \<open>
  C7. Of the dependent programs, the core-bridge program and the upgrade-manager program
  differ between localnet and testnet, and the matching-engine program is built from the
  matching-engine module's id of the same network; the token-messenger-minter program
  and the message-transmitter program are one fixed id each, the same on both networks.
\<close>

theorem network_switch_dependent_programs:
  assumes "priv_programId L = localnet" and "priv_programId T = testnet"
  shows "(\<exists>bl bt. coreBridgeProgramId L = Inr bl \<and> coreBridgeProgramId T = Inr bt \<and> bl \<noteq> bt)
    \<and> (\<exists>ul ut. upgradeManagerProgram L = Inr ul \<and> upgradeManagerProgram T = Inr ut
          \<and> um_programId ul \<noteq> um_programId ut)
    \<and> (\<exists>ml mt. matchingEngineProgram ext L = Inr ml \<and> matchingEngineProgram ext T = Inr mt
          \<and> me_programId ml = matchingEngine_localnet ext
          \<and> me_programId mt = matchingEngine_testnet ext)
    \<and> tmm_programId (tokenMessengerMinterProgram L) = tmm_programId (tokenMessengerMinterProgram T)
    \<and> mt_programId (messageTransmitterProgram L) = mt_programId (messageTransmitterProgram T)"
  using assms testnet_neq_localnet
  by (simp add: coreBridgeProgramId_def upgradeManagerProgram_def matchingEngineProgram_def
        tokenMessengerMinterProgram_def messageTransmitterProgram_def)

theorem network_switch_dependent_programs_witness:
  "priv_programId sample_localnet_program = localnet
   \<and> priv_programId sample_testnet_program = testnet
   \<and> coreBridgeProgramId sample_localnet_program \<noteq> coreBridgeProgramId sample_testnet_program
   \<and> map_sum id um_programId (upgradeManagerProgram sample_localnet_program)
       \<noteq> map_sum id um_programId (upgradeManagerProgram sample_testnet_program)
   \<and> tmm_programId (tokenMessengerMinterProgram sample_localnet_program)
       = tmm_programId (tokenMessengerMinterProgram sample_testnet_program)"
proof -
  have l: "priv_programId sample_localnet_program = localnet"
    by (simp add: sample_localnet_program_def)
  have t: "priv_programId sample_testnet_program = testnet"
    by (simp add: sample_testnet_program_def)
  from network_switch_dependent_programs [OF l t, of sample_ext] l t show ?thesis
    by auto
qed

text \<open>
  The statement that every dependent program id differs between the two networks fails
  on the two CCTP programs: they are constants of the file, not switched on the id.
\<close>

theorem cctp_programs_same_on_both_networks:
  "tmm_programId (tokenMessengerMinterProgram sample_localnet_program)
     = tmm_programId (tokenMessengerMinterProgram sample_testnet_program)
   \<and> mt_programId (messageTransmitterProgram sample_localnet_program)
     = mt_programId (messageTransmitterProgram sample_testnet_program)
   \<and> priv_programId sample_localnet_program \<noteq> priv_programId sample_testnet_program"
  by (simp add: tokenMessengerMinterProgram_def messageTransmitterProgram_def
        sample_localnet_program_def sample_testnet_program_def localnet_def testnet_def)

subsection \<open>The mint recipient\<close>

text \<open>
  C9. \<^verbatim>\<open>cctpMintRecipientAddress()\<close> is the associated-token-account address, under
  the standard derivation, of the configured mint and the custodian, the custodian being
  the address derived for the program id from the seed \<^verbatim>\<open>"custodian"\<close>. The call
  allows an owner off the curve, so it never refuses the custodian.
\<close>

theorem cctpMintRecipientAddress_associated_token_address:
  "cctpMintRecipientAddress ext P =
     Inr (standard_associated_token_address ext (mint P) (custodianAddress ext P))
   \<and> custodianAddress ext P =
     fst (findProgramAddressSync ext [Buffer_from ''custodian''] (ID P))"
  by (simp add: cctpMintRecipientAddress_def getAssociatedTokenAddressSync_def
        standard_associated_token_address_def custodianAddress_def Custodian_address_def)

subsection \<open>Approving the transfer authority\<close>

text \<open>
  C10. The approve instruction of \<^verbatim>\<open>approveTransferAuthorityIx\<close> delegates exactly
  \<^verbatim>\<open>amountIn\<close> from the given \<^verbatim>\<open>senderToken\<close> to the computed transfer authority;
  the owner is the given \<^verbatim>\<open>senderTokenAuthority\<close>, with no ledger read, or else the
  owner of the \<^verbatim>\<open>senderToken\<close> account read from the ledger. When that read fails the
  method fails with the read's error.
\<close>

theorem approveTransferAuthorityIx_delegation:
  "(\<forall>a. ap_senderTokenAuthority accounts = Some a \<longrightarrow>
        approveTransferAuthorityIx ext P accounts args =
          (Inr (transferAuthorityAddress ext P (ap_preparedOrder accounts) args,
                ApproveInstruction (ap_senderToken accounts)
                  (transferAuthorityAddress ext P (ap_preparedOrder accounts) args)
                  a (amountIn args)),
           []))
   \<and> (\<forall>acct. ap_senderTokenAuthority accounts = None
              \<and> splToken_getAccount (connection P) (ap_senderToken accounts) = Inr acct \<longrightarrow>
        approveTransferAuthorityIx ext P accounts args =
          (Inr (transferAuthorityAddress ext P (ap_preparedOrder accounts) args,
                ApproveInstruction (ap_senderToken accounts)
                  (transferAuthorityAddress ext P (ap_preparedOrder accounts) args)
                  (tokenAccount_owner acct) (amountIn args)),
           [GetAccount (ap_senderToken accounts)]))
   \<and> (\<forall>e. ap_senderTokenAuthority accounts = None
           \<and> splToken_getAccount (connection P) (ap_senderToken accounts) = Inl e \<longrightarrow>
        approveTransferAuthorityIx ext P accounts args =
          (Inl e, [GetAccount (ap_senderToken accounts)]))"
  by (simp add: approveTransferAuthorityIx_def getAccount_def and_then_Inr returns_def Let_def)

theorem approveTransferAuthorityIx_delegation_witness:
  "ap_senderTokenAuthority sample_approve_accounts = None
   \<and> splToken_getAccount (connection sample_localnet_program)
        (ap_senderToken sample_approve_accounts)
       = Inr \<lparr>tokenAccount_owner = PublicKey ''tokenOwner''\<rparr>
   \<and> approveTransferAuthorityIx sample_ext sample_localnet_program sample_approve_accounts
        sample_args
       = (Inr (PublicKey (replicate 78 CHR ''1''),
               ApproveInstruction (PublicKey ''senderToken'') (PublicKey (replicate 78 CHR ''1''))
                 (PublicKey ''tokenOwner'') 69),
          [GetAccount (PublicKey ''senderToken'')])
   \<and> ap_senderTokenAuthority
        (sample_approve_accounts\<lparr>ap_senderTokenAuthority := Some (PublicKey ''delegator'')\<rparr>)
       = Some (PublicKey ''delegator'')
   \<and> approveTransferAuthorityIx sample_ext sample_localnet_program
        (sample_approve_accounts\<lparr>ap_senderTokenAuthority := Some (PublicKey ''delegator'')\<rparr>)
        sample_args
       = (Inr (PublicKey (replicate 78 CHR ''1''),
               ApproveInstruction (PublicKey ''senderToken'') (PublicKey (replicate 78 CHR ''1''))
                 (PublicKey ''delegator'') 69),
          [])
   \<and> approveTransferAuthorityIx sample_ext sample_localnet_program
        (sample_approve_accounts\<lparr>ap_senderToken := PublicKey ''nowhere''\<rparr>) sample_args
       = (Inl (Error ''TokenAccountNotFoundError''), [GetAccount (PublicKey ''nowhere'')])"
proof -
  have ta: "transferAuthorityAddress sample_ext sample_localnet_program (PublicKey ''order1'')
              sample_args = PublicKey (replicate 78 CHR ''1'')"
    by (simp add: transferAuthorityAddress_unfold sample_input_present sample_ext_def
          Buffer_from_def)
  have n: "ap_senderTokenAuthority sample_approve_accounts = None"
    by (simp add: sample_approve_accounts_def)
  have f: "splToken_getAccount (connection sample_localnet_program)
        (ap_senderToken sample_approve_accounts)
       = Inr \<lparr>tokenAccount_owner = PublicKey ''tokenOwner''\<rparr>"
    by (simp add: sample_approve_accounts_def sample_localnet_program_def sample_connection_def)
  have g: "splToken_getAccount (connection sample_localnet_program)
        (ap_senderToken (sample_approve_accounts\<lparr>ap_senderToken := PublicKey ''nowhere''\<rparr>))
       = Inl (Error ''TokenAccountNotFoundError'')"
    by (simp add: sample_approve_accounts_def sample_localnet_program_def sample_connection_def)
  have o: "ap_preparedOrder sample_approve_accounts = PublicKey ''order1''"
       "ap_senderToken sample_approve_accounts = PublicKey ''senderToken''"
       "amountIn sample_args = 69"
    by (simp_all add: sample_approve_accounts_def sample_args_def)
  from approveTransferAuthorityIx_delegation [of sample_approve_accounts sample_ext sample_localnet_program sample_args] n f
  have 1: "approveTransferAuthorityIx sample_ext sample_localnet_program sample_approve_accounts
        sample_args
       = (Inr (PublicKey (replicate 78 CHR ''1''),
               ApproveInstruction (PublicKey ''senderToken'') (PublicKey (replicate 78 CHR ''1''))
                 (PublicKey ''tokenOwner'') 69),
          [GetAccount (PublicKey ''senderToken'')])"
    by (simp add: ta o)
  from approveTransferAuthorityIx_delegation [of "sample_approve_accounts\<lparr>ap_senderTokenAuthority := Some (PublicKey ''delegator'')\<rparr>"
              sample_ext sample_localnet_program sample_args]
  have 2: "approveTransferAuthorityIx sample_ext sample_localnet_program
        (sample_approve_accounts\<lparr>ap_senderTokenAuthority := Some (PublicKey ''delegator'')\<rparr>)
        sample_args
       = (Inr (PublicKey (replicate 78 CHR ''1''),
               ApproveInstruction (PublicKey ''senderToken'') (PublicKey (replicate 78 CHR ''1''))
                 (PublicKey ''delegator'') 69),
          [])"
    by (simp add: ta o)
  from approveTransferAuthorityIx_delegation [of "sample_approve_accounts\<lparr>ap_senderToken := PublicKey ''nowhere''\<rparr>"
              sample_ext sample_localnet_program sample_args] n g
  have 3: "approveTransferAuthorityIx sample_ext sample_localnet_program
        (sample_approve_accounts\<lparr>ap_senderToken := PublicKey ''nowhere''\<rparr>) sample_args
       = (Inl (Error ''TokenAccountNotFoundError''), [GetAccount (PublicKey ''nowhere'')])"
    by simp
  from n f 1 2 3 show ?thesis by simp
qed

subsection \<open>Preparing a market order\<close>




subsection \<open>Closing a prepared order, consuming a prepared fill\<close>

text \<open>
  C8. \<^verbatim>\<open>closePreparedOrderIx\<close> composes \<^verbatim>\<open>preparedBy\<close>, \<^verbatim>\<open>orderSender\<close> and
  \<^verbatim>\<open>refundToken\<close> from the caller: when all three are given it reads nothing and uses
  them unchanged; when one is missing it reads the prepared order once and takes from it
  only the missing ones. \<^verbatim>\<open>consumePreparedFillIx\<close> has no optional account: it never
  reads the ledger and uses the caller's four accounts unchanged.
\<close>

theorem closePreparedOrderIx_consumePreparedFillIx_accounts:
  "(\<forall>pb os rt. cl_preparedBy a = Some pb \<and> cl_orderSender a = Some os
        \<and> cl_refundToken a = Some rt \<longrightarrow>
      (\<exists>ix. closePreparedOrderIx ext P a = (Inr ix, [])
            \<and> account_of ix ''preparedBy'' = Some (Key pb)
            \<and> account_of ix ''orderSender'' = Some (Key os)
            \<and> account_of ix ''refundToken'' = Some (Key rt)
            \<and> account_of ix ''preparedOrder'' = Some (Key (cl_preparedOrder a))))
   \<and> (\<forall>info. (cl_preparedBy a = None \<or> cl_orderSender a = None \<or> cl_refundToken a = None)
        \<and> preparedOrder_fetch (connection P) (cl_preparedOrder a) = Inr info \<longrightarrow>
      (\<exists>ix. closePreparedOrderIx ext P a = (Inr ix, [FetchPreparedOrder (cl_preparedOrder a)])
            \<and> account_of ix ''preparedBy''
                = Some (Key (or_default (cl_preparedBy a) (info_preparedBy info)))
            \<and> account_of ix ''orderSender''
                = Some (Key (or_default (cl_orderSender a) (info_orderSender info)))
            \<and> account_of ix ''refundToken''
                = Some (Key (or_default (cl_refundToken a) (info_refundToken info)))
            \<and> account_of ix ''preparedOrder'' = Some (Key (cl_preparedOrder a))))
   \<and> (\<forall>e. (cl_preparedBy a = None \<or> cl_orderSender a = None \<or> cl_refundToken a = None)
        \<and> preparedOrder_fetch (connection P) (cl_preparedOrder a) = Inl e \<longrightarrow>
      closePreparedOrderIx ext P a = (Inl e, [FetchPreparedOrder (cl_preparedOrder a)]))
   \<and> (\<exists>ix. consumePreparedFillIx ext P c = (Inr ix, [])
            \<and> account_of ix ''redeemer'' = Some (Key (cf_redeemer c))
            \<and> account_of ix ''beneficiary'' = Some (Key (cf_beneficiary c))
            \<and> account_of ix ''preparedFill'' = Some (Key (cf_preparedFill c))
            \<and> account_of ix ''dstToken'' = Some (Key (cf_dstToken c)))"
  by (auto simp: closePreparedOrderIx_def consumePreparedFillIx_def fetchPreparedOrder_def
        and_then_Inr returns_def account_of_def Let_def split: option.splits)

theorem closePreparedOrderIx_consumePreparedFillIx_accounts_witness:
  "cl_preparedBy sample_close_accounts = None
   \<and> preparedOrder_fetch (connection sample_localnet_program)
        (cl_preparedOrder sample_close_accounts)
       = Inr \<lparr>info_preparedBy = PublicKey ''preparer'',
               info_orderSender = PublicKey ''orderSender'',
               info_refundToken = PublicKey ''refundToken'', info_targetChain = 2\<rparr>
   \<and> (\<exists>ix. closePreparedOrderIx sample_ext sample_localnet_program sample_close_accounts
              = (Inr ix, [FetchPreparedOrder (PublicKey ''order1'')])
           \<and> account_of ix ''preparedBy'' = Some (Key (PublicKey ''preparer''))
           \<and> account_of ix ''orderSender'' = Some (Key (PublicKey ''givenSender''))
           \<and> account_of ix ''refundToken'' = Some (Key (PublicKey ''refundToken'')))
   \<and> (\<exists>ix. closePreparedOrderIx sample_ext sample_localnet_program
              \<lparr>cl_preparedOrder = PublicKey ''order1'', cl_preparedBy = Some (PublicKey ''a''),
               cl_orderSender = Some (PublicKey ''b''), cl_refundToken = Some (PublicKey ''c'')\<rparr>
              = (Inr ix, [])
           \<and> account_of ix ''preparedBy'' = Some (Key (PublicKey ''a''))
           \<and> account_of ix ''orderSender'' = Some (Key (PublicKey ''b''))
           \<and> account_of ix ''refundToken'' = Some (Key (PublicKey ''c'')))
   \<and> closePreparedOrderIx sample_ext sample_localnet_program
        (sample_close_accounts\<lparr>cl_preparedOrder := PublicKey ''missing''\<rparr>)
       = (Inl (Error ''Account does not exist or has no data''),
          [FetchPreparedOrder (PublicKey ''missing'')])"
proof -
  have n: "cl_preparedBy sample_close_accounts = None"
    by (simp add: sample_close_accounts_def)
  have f: "preparedOrder_fetch (connection sample_localnet_program)
        (cl_preparedOrder sample_close_accounts)
       = Inr \<lparr>info_preparedBy = PublicKey ''preparer'',
               info_orderSender = PublicKey ''orderSender'',
               info_refundToken = PublicKey ''refundToken'', info_targetChain = 2\<rparr>"
    by (simp add: sample_close_accounts_def sample_localnet_program_def sample_connection_def)
  have g: "preparedOrder_fetch (connection sample_localnet_program) (PublicKey ''missing'')
             = Inl (Error ''Account does not exist or has no data'')"
    by (simp add: sample_localnet_program_def sample_connection_def)
  have v: "cl_orderSender sample_close_accounts = Some (PublicKey ''givenSender'')"
       "cl_refundToken sample_close_accounts = None"
       "cl_preparedOrder sample_close_accounts = PublicKey ''order1''"
    by (simp_all add: sample_close_accounts_def)
  from closePreparedOrderIx_consumePreparedFillIx_accounts [of sample_close_accounts sample_ext sample_localnet_program] n f
  have 1: "\<exists>ix. closePreparedOrderIx sample_ext sample_localnet_program sample_close_accounts
              = (Inr ix, [FetchPreparedOrder (PublicKey ''order1'')])
           \<and> account_of ix ''preparedBy'' = Some (Key (PublicKey ''preparer''))
           \<and> account_of ix ''orderSender'' = Some (Key (PublicKey ''givenSender''))
           \<and> account_of ix ''refundToken'' = Some (Key (PublicKey ''refundToken''))"
    by (simp add: v) blast
  from closePreparedOrderIx_consumePreparedFillIx_accounts [of "\<lparr>cl_preparedOrder = PublicKey ''order1'', cl_preparedBy = Some (PublicKey ''a''),
               cl_orderSender = Some (PublicKey ''b''), cl_refundToken = Some (PublicKey ''c'')\<rparr>"
             sample_ext sample_localnet_program]
  have 2: "\<exists>ix. closePreparedOrderIx sample_ext sample_localnet_program
              \<lparr>cl_preparedOrder = PublicKey ''order1'', cl_preparedBy = Some (PublicKey ''a''),
               cl_orderSender = Some (PublicKey ''b''), cl_refundToken = Some (PublicKey ''c'')\<rparr>
              = (Inr ix, [])
           \<and> account_of ix ''preparedBy'' = Some (Key (PublicKey ''a''))
           \<and> account_of ix ''orderSender'' = Some (Key (PublicKey ''b''))
           \<and> account_of ix ''refundToken'' = Some (Key (PublicKey ''c''))"
    by simp blast
  from closePreparedOrderIx_consumePreparedFillIx_accounts [of "sample_close_accounts\<lparr>cl_preparedOrder := PublicKey ''missing''\<rparr>"
             sample_ext sample_localnet_program] n g
  have 3: "closePreparedOrderIx sample_ext sample_localnet_program
        (sample_close_accounts\<lparr>cl_preparedOrder := PublicKey ''missing''\<rparr>)
       = (Inl (Error ''Account does not exist or has no data''),
          [FetchPreparedOrder (PublicKey ''missing'')])"
    by simp
  from n f 1 2 3 show ?thesis by blast
qed

subsection \<open>Placing a market order through CCTP\<close>

lemma resolvePreparedByAndTargetChain_read:
  assumes "pl_preparedBy accounts = None \<or> pl_targetChain args = None"
  shows "resolvePreparedByAndTargetChain ext P accounts args =
     (case preparedOrder_fetch (connection P) (pl_preparedOrder accounts) of
        Inl e \<Rightarrow> (Inl (Error ''Cannot find prepared order''),
                  [FetchPreparedOrder (pl_preparedOrder accounts)])
      | Inr info \<Rightarrow>
          if \<not> isChainId ext (info_targetChain info)
          then (Inl (Error ''Invalid chain found in prepared order''),
                [FetchPreparedOrder (pl_preparedOrder accounts)])
          else (Inr (or_default (pl_preparedBy accounts) (info_preparedBy info),
                     or_default (pl_targetChain args) (info_targetChain info)),
                [FetchPreparedOrder (pl_preparedOrder accounts)]))"
  using assms
  by (auto simp: resolvePreparedByAndTargetChain_def fetchPreparedOrder_def catch_throw_def
        and_then_Inr returns_def throws_def split: option.splits sum.splits)

lemma resolvePreparedByAndTargetChain_trace:
  "set (snd (resolvePreparedByAndTargetChain ext P accounts args))
     \<subseteq> {FetchPreparedOrder (pl_preparedOrder accounts)}"
  by (auto simp: resolvePreparedByAndTargetChain_def fetchPreparedOrder_def catch_throw_def
        and_then_Inr returns_def throws_def split: option.splits sum.splits if_splits)

lemma resolvePreparedByAndTargetChain_given:
  assumes "pl_preparedBy accounts = Some preparedBy" and "pl_targetChain args = Some chain"
  shows "resolvePreparedByAndTargetChain ext P accounts args = (Inr (preparedBy, chain), [])"
  using assms by (simp add: resolvePreparedByAndTargetChain_def returns_def)

text \<open>
  C3. In \<^verbatim>\<open>placeMarketOrderCctpIx\<close> without \<^verbatim>\<open>preparedBy\<close> or without
  \<^verbatim>\<open>targetChain\<close>: when the prepared order cannot be read the method fails with
  \<^verbatim>\<open>Cannot find prepared order\<close>, and when it is read but its stored chain is not a
  chain id the method fails with \<^verbatim>\<open>Invalid chain found in prepared order\<close>. In both
  cases the only call made before the failure is the read of the prepared order: the
  router endpoint has not been derived, nor anything else.
\<close>

theorem placeMarketOrderCctpIx_prepared_order_checks:
  assumes "pl_preparedBy accounts = None \<or> pl_targetChain args = None"
  shows "(\<forall>e. preparedOrder_fetch (connection P) (pl_preparedOrder accounts) = Inl e \<longrightarrow>
            placeMarketOrderCctpIx ext P accounts args =
              (Inl (Error ''Cannot find prepared order''),
               [FetchPreparedOrder (pl_preparedOrder accounts)]))
       \<and> (\<forall>info. preparedOrder_fetch (connection P) (pl_preparedOrder accounts) = Inr info
                 \<and> \<not> isChainId ext (info_targetChain info) \<longrightarrow>
            placeMarketOrderCctpIx ext P accounts args =
              (Inl (Error ''Invalid chain found in prepared order''),
               [FetchPreparedOrder (pl_preparedOrder accounts)]))"
  using assms
  by (auto simp: placeMarketOrderCctpIx_def Let_def resolvePreparedByAndTargetChain_read)

theorem placeMarketOrderCctpIx_prepared_order_checks_witness:
  "(pl_preparedBy sample_place_accounts = None \<or> pl_targetChain sample_place_args = None)
   \<and> preparedOrder_fetch (connection sample_localnet_program) (PublicKey ''missing'')
       = Inl (Error ''Account does not exist or has no data'')
   \<and> placeMarketOrderCctpIx sample_ext sample_localnet_program
        (sample_place_accounts\<lparr>pl_preparedOrder := PublicKey ''missing''\<rparr>) sample_place_args
       = (Inl (Error ''Cannot find prepared order''), [FetchPreparedOrder (PublicKey ''missing'')])
   \<and> \<not> isChainId sample_ext 65535
   \<and> placeMarketOrderCctpIx sample_ext sample_localnet_program
        (sample_place_accounts\<lparr>pl_preparedOrder := PublicKey ''order2''\<rparr>) sample_place_args
       = (Inl (Error ''Invalid chain found in prepared order''),
          [FetchPreparedOrder (PublicKey ''order2'')])"
proof -
  have n: "pl_preparedBy sample_place_accounts = None \<or> pl_targetChain sample_place_args = None"
    by (simp add: sample_place_accounts_def)
  have n1: "pl_preparedBy (sample_place_accounts\<lparr>pl_preparedOrder := PublicKey ''missing''\<rparr>) = None
            \<or> pl_targetChain sample_place_args = None"
    by (simp add: sample_place_accounts_def)
  have n2: "pl_preparedBy (sample_place_accounts\<lparr>pl_preparedOrder := PublicKey ''order2''\<rparr>) = None
            \<or> pl_targetChain sample_place_args = None"
    by (simp add: sample_place_accounts_def)
  have g: "preparedOrder_fetch (connection sample_localnet_program) (PublicKey ''missing'')
             = Inl (Error ''Account does not exist or has no data'')"
    by (simp add: sample_localnet_program_def sample_connection_def)
  have f: "preparedOrder_fetch (connection sample_localnet_program) (PublicKey ''order2'')
             = Inr \<lparr>info_preparedBy = PublicKey ''preparer'',
                     info_orderSender = PublicKey ''orderSender'',
                     info_refundToken = PublicKey ''refundToken'', info_targetChain = 65535\<rparr>"
    by (simp add: sample_localnet_program_def sample_connection_def)
  have c: "\<not> isChainId sample_ext 65535"
    by (simp add: sample_ext_def)
  from placeMarketOrderCctpIx_prepared_order_checks [OF n1, of sample_localnet_program sample_ext] g
  have 1: "placeMarketOrderCctpIx sample_ext sample_localnet_program
        (sample_place_accounts\<lparr>pl_preparedOrder := PublicKey ''missing''\<rparr>) sample_place_args
       = (Inl (Error ''Cannot find prepared order''), [FetchPreparedOrder (PublicKey ''missing'')])"
    by simp
  from placeMarketOrderCctpIx_prepared_order_checks [OF n2, of sample_localnet_program sample_ext] f c
  have 2: "placeMarketOrderCctpIx sample_ext sample_localnet_program
        (sample_place_accounts\<lparr>pl_preparedOrder := PublicKey ''order2''\<rparr>) sample_place_args
       = (Inl (Error ''Invalid chain found in prepared order''),
          [FetchPreparedOrder (PublicKey ''order2'')])"
    by simp
  from n g c 1 2 show ?thesis by blast
qed

lemma matchingEngineProgram_connection:
  "matchingEngineProgram ext P = Inr me \<Longrightarrow> me_connection me = connection P"
  by (auto simp: matchingEngineProgram_def split: if_splits)

lemma publishMessageAccounts_supported:
  "matchingEngineProgram ext P = Inr me \<Longrightarrow> \<exists>pub. publishMessageAccounts ext P emitter = Inr pub"
  by (auto simp: matchingEngineProgram_def publishMessageAccounts_def coreBridgeProgramId_def
        split: if_splits)

lemma resolveDestinationDomain_cases:
  "resolveDestinationDomain me routerEndpoint dd =
     (case dd of
        Some d \<Rightarrow> (Inr d, [])
      | None \<Rightarrow>
          (case routerEndpointInfo_fetch (me_connection me) routerEndpoint of
             Inl e \<Rightarrow> (Inl e, [FetchRouterEndpointInfo routerEndpoint])
           | Inr info \<Rightarrow>
               (case cctp (protocol info) of
                  None \<Rightarrow> (Inl (Error ''invalid router endpoint''),
                            [FetchRouterEndpointInfo routerEndpoint])
                | Some c \<Rightarrow> (Inr (domain c), [FetchRouterEndpointInfo routerEndpoint]))))"
  by (simp add: resolveDestinationDomain_def fetchRouterEndpointInfo_def and_then_Inr
        returns_def throws_def split: option.split sum.split)

text \<open>
  C4. In \<^verbatim>\<open>placeMarketOrderCctpIx\<close>, once \<^verbatim>\<open>preparedBy\<close> and \<^verbatim>\<open>targetChain\<close> are
  settled and the network is known: a \<^verbatim>\<open>destinationDomain\<close> given by the caller is
  the one the burn accounts are composed with, and the router endpoint is not read;
  otherwise the router endpoint is read, and its CCTP domain is the one the burn accounts
  are composed with; when the endpoint's protocol has no CCTP variant the method fails
  with \<^verbatim>\<open>invalid router endpoint\<close> and the burn accounts are not composed: no call
  to \<^verbatim>\<open>depositForBurnWithCallerAccounts\<close> is among the calls made.
\<close>

theorem placeMarketOrderCctpIx_destination_domain:
  assumes r: "resolvePreparedByAndTargetChain ext P accounts args = (Inr (preparedBy, chain), t1)"
    and m: "matchingEngineProgram ext P = Inr matchingEngine"
    and re: "routerEndpoint = or_default (pl_routerEndpoint accounts)
                                (routerEndpointAddress ext matchingEngine chain)"
    and t2: "t2 = (case pl_routerEndpoint accounts of
                     None \<Rightarrow> [RouterEndpointAddress chain] | Some given \<Rightarrow> [])"
  shows
   "(\<forall>d. pl_destinationDomain args = Some d \<longrightarrow>
       (\<exists>ix. placeMarketOrderCctpIx ext P accounts args =
               (Inr ix, t1 @ t2 @ [DepositForBurnWithCallerAccounts (mint P) d])
           \<and> (\<forall>(role, v) \<in> set (burn_roles (depositForBurnWithCallerAccounts ext
                                  (tokenMessengerMinterProgram P) (mint P) d)).
                 account_of ix role = Some v)))
    \<and> (\<forall>info c. pl_destinationDomain args = None
          \<and> routerEndpointInfo_fetch (connection P) routerEndpoint = Inr info
          \<and> cctp (protocol info) = Some c \<longrightarrow>
       (\<exists>ix. placeMarketOrderCctpIx ext P accounts args =
               (Inr ix, t1 @ t2 @ [FetchRouterEndpointInfo routerEndpoint,
                                   DepositForBurnWithCallerAccounts (mint P) (domain c)])
           \<and> (\<forall>(role, v) \<in> set (burn_roles (depositForBurnWithCallerAccounts ext
                                  (tokenMessengerMinterProgram P) (mint P) (domain c))).
                 account_of ix role = Some v)))
    \<and> (\<forall>info. pl_destinationDomain args = None
          \<and> routerEndpointInfo_fetch (connection P) routerEndpoint = Inr info
          \<and> cctp (protocol info) = None \<longrightarrow>
       placeMarketOrderCctpIx ext P accounts args =
         (Inl (Error ''invalid router endpoint''),
          t1 @ t2 @ [FetchRouterEndpointInfo routerEndpoint])
       \<and> (\<forall>mnt d. DepositForBurnWithCallerAccounts mnt d
                  \<notin> set (snd (placeMarketOrderCctpIx ext P accounts args))))"
proof -
  have quiet: "\<And>mnt d. DepositForBurnWithCallerAccounts mnt d \<notin> set t1"
    using r resolvePreparedByAndTargetChain_trace [of ext P accounts args] by auto
  obtain pub where pub: "publishMessageAccounts ext P (custodianAddress ext P) = Inr pub"
    using publishMessageAccounts_supported [OF m] by blast
  have conn: "me_connection matchingEngine = connection P"
    using m by (rule matchingEngineProgram_connection)
  show ?thesis
    using r m pub conn re t2 quiet
    by (auto simp: placeMarketOrderCctpIx_def Let_def pure_call_def and_then_Inr returns_def
          resolveDestinationDomain_cases burn_roles_def account_of_def
          split: option.splits)
qed

lemma sample_resolution:
  "resolvePreparedByAndTargetChain sample_ext sample_localnet_program
     (sample_place_accounts\<lparr>pl_routerEndpoint := given\<rparr>)
     (sample_place_args\<lparr>pl_destinationDomain := dd\<rparr>)
   = (Inr (PublicKey ''preparer'', 2), [FetchPreparedOrder (PublicKey ''order1'')])"
  by (simp add: resolvePreparedByAndTargetChain_read sample_place_accounts_def
        sample_place_args_def sample_localnet_program_def sample_connection_def sample_ext_def)

lemma sample_matching_engine:
  "matchingEngineProgram sample_ext sample_localnet_program
   = Inr \<lparr>me_connection = sample_connection,
           me_programId = ''MatchingEngine11111111111111111111111111111'',
           me_mint = sample_mint\<rparr>"
  by (simp add: matchingEngineProgram_def sample_localnet_program_def sample_ext_def
        localnet_def testnet_def mint_def)

theorem placeMarketOrderCctpIx_destination_domain_witness:
  "pl_destinationDomain (sample_place_args\<lparr>pl_destinationDomain := None\<rparr>) = None
   \<and> routerEndpointInfo_fetch (connection sample_localnet_program) (PublicKey ''endpointCctp'')
       = Inr \<lparr>protocol = \<lparr>cctp = Some \<lparr>domain = 0\<rparr>\<rparr>\<rparr>
   \<and> (\<exists>ix. placeMarketOrderCctpIx sample_ext sample_localnet_program
              (sample_place_accounts\<lparr>pl_routerEndpoint := None\<rparr>)
              (sample_place_args\<lparr>pl_destinationDomain := None\<rparr>)
            = (Inr ix, [FetchPreparedOrder (PublicKey ''order1''), RouterEndpointAddress 2,
                        FetchRouterEndpointInfo (PublicKey ''endpointCctp''),
                        DepositForBurnWithCallerAccounts sample_mint 0])
          \<and> account_of ix ''remoteTokenMessenger'' = Some (Key (PublicKey '''')))
   \<and> (\<exists>ix. placeMarketOrderCctpIx sample_ext sample_localnet_program
              (sample_place_accounts\<lparr>pl_routerEndpoint := None\<rparr>)
              (sample_place_args\<lparr>pl_destinationDomain := Some 3\<rparr>)
            = (Inr ix, [FetchPreparedOrder (PublicKey ''order1''), RouterEndpointAddress 2,
                        DepositForBurnWithCallerAccounts sample_mint 3])
          \<and> account_of ix ''remoteTokenMessenger'' = Some (Key (PublicKey ''rrr'')))
   \<and> routerEndpointInfo_fetch (connection sample_localnet_program) (PublicKey ''endpointLocal'')
       = Inr \<lparr>protocol = \<lparr>cctp = None\<rparr>\<rparr>
   \<and> placeMarketOrderCctpIx sample_ext sample_localnet_program
        (sample_place_accounts\<lparr>pl_routerEndpoint := Some (PublicKey ''endpointLocal'')\<rparr>)
        (sample_place_args\<lparr>pl_destinationDomain := None\<rparr>)
       = (Inl (Error ''invalid router endpoint''),
          [FetchPreparedOrder (PublicKey ''order1''),
           FetchRouterEndpointInfo (PublicKey ''endpointLocal'')])"
proof -
  let ?me = "\<lparr>me_connection = sample_connection,
              me_programId = ''MatchingEngine11111111111111111111111111111'',
              me_mint = sample_mint\<rparr>"
  have d: "pl_destinationDomain (sample_place_args\<lparr>pl_destinationDomain := None\<rparr>) = None"
    by simp
  have fc: "routerEndpointInfo_fetch (connection sample_localnet_program)
              (PublicKey ''endpointCctp'') = Inr \<lparr>protocol = \<lparr>cctp = Some \<lparr>domain = 0\<rparr>\<rparr>\<rparr>"
    by (simp add: sample_localnet_program_def sample_connection_def)
  have fl: "routerEndpointInfo_fetch (connection sample_localnet_program)
              (PublicKey ''endpointLocal'') = Inr \<lparr>protocol = \<lparr>cctp = None\<rparr>\<rparr>"
    by (simp add: sample_localnet_program_def sample_connection_def)
  have re1: "PublicKey ''endpointCctp''
             = or_default (pl_routerEndpoint (sample_place_accounts\<lparr>pl_routerEndpoint := None\<rparr>))
                 (routerEndpointAddress sample_ext ?me 2)"
    by (simp add: sample_ext_def)
  have t1: "[RouterEndpointAddress 2]
            = (case pl_routerEndpoint (sample_place_accounts\<lparr>pl_routerEndpoint := None\<rparr>) of
                 None \<Rightarrow> [RouterEndpointAddress 2] | Some given \<Rightarrow> [])"
    by simp
  have re2: "PublicKey ''endpointLocal''
             = or_default (pl_routerEndpoint
                  (sample_place_accounts\<lparr>pl_routerEndpoint := Some (PublicKey ''endpointLocal'')\<rparr>))
                 (routerEndpointAddress sample_ext ?me 2)"
    by simp
  have t2: "[] = (case pl_routerEndpoint
                  (sample_place_accounts\<lparr>pl_routerEndpoint := Some (PublicKey ''endpointLocal'')\<rparr>) of
                 None \<Rightarrow> [RouterEndpointAddress 2] | Some given \<Rightarrow> [])"
    by simp
  have m: "mint sample_localnet_program = sample_mint"
    by (simp add: mint_def sample_localnet_program_def)
  have burn: "\<And>dom. depositForBurnWithCallerAccounts sample_ext
            (tokenMessengerMinterProgram sample_localnet_program) sample_mint dom
          = \<lparr>senderAuthority = PublicKey ''senderAuthority'',
             messageTransmitterConfig = PublicKey ''messageTransmitterConfig'',
             tokenMessenger = PublicKey ''tokenMessenger'',
             remoteTokenMessenger = PublicKey (replicate dom CHR ''r''),
             tokenMinter = PublicKey ''tokenMinter'',
             localToken = sample_mint,
             tokenMessengerMinterEventAuthority = PublicKey ''eventAuthority'',
             messageTransmitterProgramId = PublicKey ''CCTPmbSD7gX1bxKPAmg77w8oFzNFpaQiQUWD43TKaecd'',
             tokenMessengerMinterProgramId = PublicKey ''CCTPiPYPc6AsJuwueEnWgSgucamXDZwBd53dQ11YiKX3''\<rparr>"
    by (simp add: sample_ext_def tokenMessengerMinterProgram_def)
  note a = placeMarketOrderCctpIx_destination_domain [OF sample_resolution [of None None] sample_matching_engine re1 t1,
               THEN conjunct2, THEN conjunct1]
  note b = placeMarketOrderCctpIx_destination_domain [OF sample_resolution [of None "Some 3"] sample_matching_engine re1 t1,
               THEN conjunct1]
  note c = placeMarketOrderCctpIx_destination_domain [OF sample_resolution [of "Some (PublicKey ''endpointLocal'')" None]
                 sample_matching_engine re2 t2, THEN conjunct2, THEN conjunct2]
  from a fc have 1: "\<exists>ix. placeMarketOrderCctpIx sample_ext sample_localnet_program
              (sample_place_accounts\<lparr>pl_routerEndpoint := None\<rparr>)
              (sample_place_args\<lparr>pl_destinationDomain := None\<rparr>)
            = (Inr ix, [FetchPreparedOrder (PublicKey ''order1''), RouterEndpointAddress 2,
                        FetchRouterEndpointInfo (PublicKey ''endpointCctp''),
                        DepositForBurnWithCallerAccounts sample_mint 0])
          \<and> account_of ix ''remoteTokenMessenger'' = Some (Key (PublicKey ''''))"
    by (simp add: m burn burn_roles_def) blast
  from b have 2: "\<exists>ix. placeMarketOrderCctpIx sample_ext sample_localnet_program
              (sample_place_accounts\<lparr>pl_routerEndpoint := None\<rparr>)
              (sample_place_args\<lparr>pl_destinationDomain := Some 3\<rparr>)
            = (Inr ix, [FetchPreparedOrder (PublicKey ''order1''), RouterEndpointAddress 2,
                        DepositForBurnWithCallerAccounts sample_mint 3])
          \<and> account_of ix ''remoteTokenMessenger'' = Some (Key (PublicKey ''rrr''))"
    by (simp add: m burn burn_roles_def numeral_3_eq_3) blast
  from c fl have 3: "placeMarketOrderCctpIx sample_ext sample_localnet_program
        (sample_place_accounts\<lparr>pl_routerEndpoint := Some (PublicKey ''endpointLocal'')\<rparr>)
        (sample_place_args\<lparr>pl_destinationDomain := None\<rparr>)
       = (Inl (Error ''invalid router endpoint''),
          [FetchPreparedOrder (PublicKey ''order1''),
           FetchRouterEndpointInfo (PublicKey ''endpointLocal'')])"
    by simp
  from d fc fl 1 2 3 show ?thesis by blast
qed

end
